theory Spec2Isabelle
  imports Main "HOL-Library.Sublist"
begin

section \<open>Values, errors and Python string helpers\<close>

text \<open>
  Exceptions of the adapter (\<open>goldstone.lib.errors\<close>) and the Python built-in
  exceptions that the modelled code can raise.  \<open>ExternalFailure\<close> stands for any
  exception raised inside a collaborator call (driver, orchestrator, peer server).
\<close>

datatype error =
    InvalArgError string
  | LockedError string
  | NotFoundError
  | KeyError string
  | NameError string
  | TypeError
  | AttributeError
  | PyException string
  | ExternalFailure string

text \<open>
  Configuration data is a tree of Python values; a \<open>dict\<close> is an association list
  in insertion order.
\<close>

datatype yval =
    YNone
  | YBool bool
  | YInt int
  | YStr string
  | YList "yval list"
  | YDict "(string \<times> yval) list"

type_synonym pydict = "(string \<times> yval) list"

text \<open>\<open>s.endswith(suf)\<close> and \<open>sub in s\<close> on strings.\<close>

definition endswith :: "string \<Rightarrow> string \<Rightarrow> bool" where
  "endswith s suf = suffix suf s"

definition contains :: "string \<Rightarrow> string \<Rightarrow> bool" where
  "contains s sub = sublist sub s"

text \<open>\<open>s.upper()\<close> and \<open>s.lower()\<close> on ASCII text.\<close>

definition upper_char :: "char \<Rightarrow> char" where
  "upper_char c =
     (case map_of (zip ''abcdefghijklmnopqrstuvwxyz'' ''ABCDEFGHIJKLMNOPQRSTUVWXYZ'') c of
        Some u \<Rightarrow> u | None \<Rightarrow> c)"

definition upper :: "string \<Rightarrow> string" where
  "upper s = map upper_char s"

definition lower_char :: "char \<Rightarrow> char" where
  "lower_char c =
     (case map_of (zip ''ABCDEFGHIJKLMNOPQRSTUVWXYZ'' ''abcdefghijklmnopqrstuvwxyz'') c of
        Some l \<Rightarrow> l | None \<Rightarrow> c)"

definition lower :: "string \<Rightarrow> string" where
  "lower s = map lower_char s"

text \<open>\<open>sep.join(xs)\<close> and \<open>s.replace(old, new)\<close>.\<close>

fun join :: "string \<Rightarrow> string list \<Rightarrow> string" where
  "join sep [] = []"
| "join sep [x] = x"
| "join sep (x # y # ys) = x @ sep @ join sep (y # ys)"

fun str_replace :: "string \<Rightarrow> string \<Rightarrow> string \<Rightarrow> string" where
  "str_replace old new [] = []"
| "str_replace old new (c # cs) =
     (if old \<noteq> [] \<and> prefix old (c # cs)
      then new @ str_replace old new (drop (length old) (c # cs))
      else c # str_replace old new cs)"

text \<open>\<open>d.get(k, dflt)\<close> and \<open>d[k]\<close> on a dict.\<close>

definition dict_get :: "pydict \<Rightarrow> string \<Rightarrow> yval \<Rightarrow> yval" where
  "dict_get d k dflt = (case map_of d k of Some v \<Rightarrow> v | None \<Rightarrow> dflt)"

definition dict_item :: "pydict \<Rightarrow> string \<Rightarrow> error + yval" where
  "dict_item d k = (case map_of d k of Some v \<Rightarrow> Inr v | None \<Rightarrow> Inl (KeyError k))"

text \<open>Truth value of a Python value.\<close>

fun truthy :: "yval \<Rightarrow> bool" where
  "truthy YNone = False"
| "truthy (YBool b) = b"
| "truthy (YInt n) = (n \<noteq> 0)"
| "truthy (YStr s) = (s \<noteq> [])"
| "truthy (YList l) = (l \<noteq> [])"
| "truthy (YDict d) = (d \<noteq> [])"

section \<open>Interface-type validation\<close>

definition SINGLE_LANE_INTERFACE_TYPES :: "string list" where
  "SINGLE_LANE_INTERFACE_TYPES = [''CR'', ''LR'', ''SR'', ''KR'']"

definition DOUBLE_LANE_INTERFACE_TYPES :: "string list" where
  "DOUBLE_LANE_INTERFACE_TYPES = [''CR2'', ''LR2'', ''SR2'', ''KR2'']"

definition QUAD_LANE_INTERFACE_TYPES :: "string list" where
  "QUAD_LANE_INTERFACE_TYPES = [''CR4'', ''LR4'', ''SR4'', ''KR4'']"

text \<open>
  The running datastore as far as \<open>validate_interface_type\<close> and
  \<open>get_breakout_detail\<close> read it: the result of \<open>get_running_data\<close> on the
  interface's own path and on its \<open>ethernet/breakout/state\<close> path.  Both calls
  belong to the datastore engine; they return a value, \<open>None\<close>, or raise.
\<close>

record datastore =
  if_running :: "string \<Rightarrow> error + yval option"
  breakout_state :: "string \<Rightarrow> error + pydict option"

text \<open>\<open>v > 1\<close> for a Python value (\<open>bool\<close> is a subtype of \<open>int\<close>).\<close>

fun gt_one :: "yval \<Rightarrow> error + bool" where
  "gt_one (YInt n) = Inr (1 < n)"
| "gt_one (YBool b) = Inr False"
| "gt_one _ = Inl TypeError"

text \<open>
  \<open>InterfaceServer.get_breakout_detail\<close>.  The \<open>elif\<close> condition reads the
  variable \<open>name\<close>, which is neither a parameter nor a local nor a module global of
  \<open>interfaces.py\<close>: evaluating it raises \<open>NameError\<close>, so the parent fallback
  below it (the recursive call on \<open>name.split("_")[0] + "_1"\<close>) and the final
  \<open>return None\<close> are never reached.
\<close>

definition get_breakout_detail :: "datastore \<Rightarrow> string \<Rightarrow> error + pydict option" where
  "get_breakout_detail ds ifname =
     (case breakout_state ds ifname of
        Inl e \<Rightarrow> Inl e
      | Inr None \<Rightarrow> Inr None
      | Inr (Some data) \<Rightarrow>
          if data = [] then Inr None
          else (case gt_one (dict_get data ''num-channels'' (YInt 1)) of
                  Inl e \<Rightarrow> Inl e
                | Inr True \<Rightarrow>
                    (case dict_item data ''num-channels'' of
                       Inl e \<Rightarrow> Inl e
                     | Inr n \<Rightarrow>
                        (case dict_item data ''channel-speed'' of
                           Inl e \<Rightarrow> Inl e
                         | Inr s \<Rightarrow> Inr (Some [(''num-channels'', n), (''channel-speed'', s)])))
                | Inr False \<Rightarrow> Inl (NameError ''name'')))"

text \<open>\<open>int(v)\<close> on a number, and \<open>v.endswith(suf)\<close> on a value.\<close>

fun py_int :: "yval \<Rightarrow> error + int" where
  "py_int (YInt n) = Inr n"
| "py_int (YBool b) = Inr (if b then 1 else 0)"
| "py_int _ = Inl TypeError"

fun yval_endswith :: "yval \<Rightarrow> string \<Rightarrow> error + bool" where
  "yval_endswith (YStr s) suf = Inr (endswith s suf)"
| "yval_endswith _ suf = Inl AttributeError"

text \<open>
  The \<open>try\<close> block of \<open>validate_interface_type\<close>: it yields the channel count
  and the breakout detail when there is one.  \<open>KeyError\<close> and \<open>NotFoundError\<close>
  are caught and give channel count 1; every other exception propagates.
\<close>

definition catch_numch :: "error + (int \<times> pydict option) \<Rightarrow> error + (int \<times> pydict option)" where
  "catch_numch r =
     (case r of
        Inl (KeyError k) \<Rightarrow> Inr (1, None)
      | Inl NotFoundError \<Rightarrow> Inr (1, None)
      | other \<Rightarrow> other)"

definition breakout_numch :: "datastore \<Rightarrow> string \<Rightarrow> error + (int \<times> pydict option)" where
  "breakout_numch ds ifname =
     catch_numch
       (case if_running ds ifname of
          Inl e \<Rightarrow> Inl e
        | Inr _ \<Rightarrow>
           (case get_breakout_detail ds ifname of
              Inl e \<Rightarrow> Inl e
            | Inr None \<Rightarrow> Inl (KeyError [])
            | Inr (Some detail) \<Rightarrow>
               if detail = [] then Inl (KeyError [])
               else (case dict_item detail ''num-channels'' of
                       Inl e \<Rightarrow> Inl e
                     | Inr v \<Rightarrow>
                        (case py_int v of
                           Inl e \<Rightarrow> Inl e
                         | Inr n \<Rightarrow> Inr (n, Some detail)))))"

definition unsupported_iftype :: error where
  "unsupported_iftype = InvalArgError ''Unsupported interface type''"

text \<open>
  \<open>InterfaceServer.validate_interface_type\<close>.  With four channels the detail is
  always bound (the channel count 4 can only come out of the \<open>try\<close> block); the
  \<open>None\<close> case below is the unbound local of the source.
\<close>

definition validate_interface_type :: "datastore \<Rightarrow> string \<Rightarrow> string \<Rightarrow> error + unit" where
  "validate_interface_type ds ifname iftype =
     (case breakout_numch ds ifname of
        Inl e \<Rightarrow> Inl e
      | Inr (numch, detail) \<Rightarrow>
          if numch = 4 then
            (case detail of
               None \<Rightarrow> Inl (NameError ''detail'')
             | Some d \<Rightarrow>
                (case dict_item d ''channel-speed'' of
                   Inl e \<Rightarrow> Inl e
                 | Inr sp \<Rightarrow>
                    (case yval_endswith sp ''10GB'' of
                       Inl e \<Rightarrow> Inl e
                     | Inr b \<Rightarrow>
                        if b \<and> iftype = ''SR'' then Inl unsupported_iftype
                        else if iftype \<notin> set SINGLE_LANE_INTERFACE_TYPES then Inl unsupported_iftype
                        else Inr ())))
          else if numch = 2 then
            (if iftype \<notin> set DOUBLE_LANE_INTERFACE_TYPES then Inl unsupported_iftype else Inr ())
          else if numch = 1 then
            (if iftype \<notin> set QUAD_LANE_INTERFACE_TYPES then Inl unsupported_iftype else Inr ())
          else Inl unsupported_iftype)"

section \<open>Running configuration and published breakout state\<close>

text \<open>
  Modelled from the spec: the datastore engine behind \<open>get_running_data\<close> is not
  part of the sources at hand (section 1 treats it as a provided capability,
  section 6 lists \<open>get(path)\<close>).  The running configuration holds one subtree
  per interface; a read returns the value stored at the path below the
  interface.  What the engine does for a path without data is left open:
  \<open>on_missing\<close> is its answer, a value or an exception.
\<close>

record running_store =
  tree :: "string \<Rightarrow> yval option"
  on_missing :: "error + yval option"

fun lookup_path :: "yval \<Rightarrow> string list \<Rightarrow> yval option" where
  "lookup_path v [] = Some v"
| "lookup_path (YDict d) (k # ks) =
     (case map_of d k of None \<Rightarrow> None | Some w \<Rightarrow> lookup_path w ks)"
| "lookup_path _ (k # ks) = None"

definition get_running_data :: "running_store \<Rightarrow> string \<Rightarrow> string list \<Rightarrow> error + yval option" where
  "get_running_data st ifname path =
     (case tree st ifname of
        None \<Rightarrow> on_missing st
      | Some t \<Rightarrow>
         (case lookup_path t path of
            None \<Rightarrow> on_missing st
          | Some v \<Rightarrow> Inr (Some v)))"

text \<open>
  The part of \<open>InterfaceServer.oper_cb\<close> that fills \<open>ethernet/breakout/state\<close>
  of one interface: a derived channel points to its parent, every other
  interface shows its breakout configuration when it has one, and the state
  stays empty otherwise.
\<close>

definition oper_cb_breakout_state :: "running_store \<Rightarrow> string \<Rightarrow> error + yval" where
  "oper_cb_breakout_state st name =
     (if \<not> endswith name ''_1'' \<and> CHR ''_'' \<in> set name then
        Inr (YDict [(''parent'', YStr (takeWhile (\<lambda>c. c \<noteq> CHR ''_'') name @ ''_1''))])
      else
        (case get_running_data st name [''ethernet'', ''breakout'', ''config''] of
           Inl e \<Rightarrow> Inl e
         | Inr None \<Rightarrow> Inr (YDict [])
         | Inr (Some config) \<Rightarrow> if truthy config then Inr config else Inr (YDict [])))"

text \<open>
  Modelled from the spec: how the engine answers the two reads of
  \<open>validate_interface_type\<close> is not part of the sources at hand.  The read of
  the interface's own path returns its subtree of the running configuration.
  The breakout state is not stored: the read of \<open>ethernet/breakout/state\<close> is
  answered with the state that \<open>oper_cb\<close> publishes for the interface (section 8
  has a breakout set on an interface decide the interface types accepted for
  it).  A state that is not a dict fails at \<open>data.get\<close> in
  \<open>get_breakout_detail\<close>.
\<close>

definition datastore_of :: "running_store \<Rightarrow> datastore" where
  "datastore_of st =
     \<lparr>if_running = (\<lambda>ifname. get_running_data st ifname []),
      breakout_state = (\<lambda>ifname.
         case oper_cb_breakout_state st ifname of
           Inl e \<Rightarrow> Inl e
         | Inr (YDict d) \<Rightarrow> Inr (Some d)
         | Inr _ \<Rightarrow> Inl AttributeError)\<rparr>"

section \<open>Change handlers\<close>

text \<open>
  A change event as a handler sees it: the interface name taken from the key
  predicate of the path, the operation, and the new value of the leaf.
\<close>

datatype change_type = Created | Modified | Deleted

record change =
  ch_ifname :: string
  ch_type :: change_type
  ch_value :: string

text \<open>
  \<open>IfChangeHandler.__init__\<close>: the handler exists only for a known interface
  (\<open>ifnames\<close> is what \<open>server.sonic.get_ifnames()\<close> returns).
\<close>

definition IfChangeHandler_init :: "string list \<Rightarrow> change \<Rightarrow> error + change" where
  "IfChangeHandler_init ifnames c =
     (if ch_ifname c \<notin> set ifnames then Inl (InvalArgError ''Invalid Interface name'')
      else Inr c)"

text \<open>\<open>IfChangeHandler.valid_speeds\<close>.\<close>

definition valid_speeds :: "string \<Rightarrow> int list" where
  "valid_speeds ifname = (if \<not> endswith ifname ''_1'' then [] else [40000, 100000])"

text \<open>
  The speed conversions \<open>speed_yang_to_redis\<close> and \<open>speed_redis_to_yang\<close> come from
  the driver module, which is not part of the sources at hand; they are parameters
  of the handlers below.
\<close>

record sonic_helpers =
  speed_yang_to_redis :: "yval \<Rightarrow> int option"
  speed_redis_to_yang :: "int \<Rightarrow> string"

text \<open>\<open>SpeedHandler.validate\<close>.  It reads the event and nothing else.\<close>

definition SpeedHandler_validate :: "sonic_helpers \<Rightarrow> change \<Rightarrow> error + unit" where
  "SpeedHandler_validate h c =
     (if ch_type c \<in> {Created, Modified} then
        (let v = speed_yang_to_redis h (YStr (ch_value c));
             valids = valid_speeds (ch_ifname c)
         in if v \<notin> set (map Some valids) then
              Inl (InvalArgError
                     (''Invalid speed: '' @ ch_value c @ '', candidates: ''
                        @ join '','' (map (speed_redis_to_yang h) valids)))
            else Inr ())
      else Inr ())"

text \<open>
  \<open>AutoNegotiateAdvertisedSpeedsHandler.validate\<close>.  The message of the error it
  means to raise is built from \<open>change.value\<close>, and \<open>change\<close> is not a name in
  scope of the method (the event is \<open>self.change\<close>): building the message raises
  \<open>NameError\<close> before \<open>InvalArgError\<close> is constructed.
\<close>

definition AutoNegotiateAdvertisedSpeedsHandler_validate ::
    "sonic_helpers \<Rightarrow> change \<Rightarrow> error + unit" where
  "AutoNegotiateAdvertisedSpeedsHandler_validate h c =
     (if ch_type c \<in> {Created, Modified} then
        (let v = speed_yang_to_redis h (YStr (ch_value c));
             valids = valid_speeds (ch_ifname c)
         in if v \<notin> set (map Some valids) then
              (let valids' = map (speed_redis_to_yang h) valids
               in Inl (NameError ''change''))
            else Inr ())
      else Inr ())"

section \<open>UFD groups\<close>

text \<open>
  An uplink-failure-detection group as the running datastore returns it.  The
  schema fixes the shape; what varies is which keys are present, so an absent
  \<open>config\<close>, \<open>uplink\<close> or \<open>downlink\<close> key is \<open>None\<close>.
\<close>

record ufd_config =
  uplink :: "string list option"
  downlink :: "string list option"

record ufd_group =
  ufd_id :: string
  group_config :: "ufd_config option"

text \<open>\<open>ufd_id.get("config", {}).get(key, [])\<close> for the two member lists.\<close>

definition get_uplink :: "ufd_group \<Rightarrow> string list" where
  "get_uplink g =
     (case group_config g of None \<Rightarrow> []
      | Some c \<Rightarrow> (case uplink c of None \<Rightarrow> [] | Some l \<Rightarrow> l))"

definition get_downlink :: "ufd_group \<Rightarrow> string list" where
  "get_downlink g =
     (case group_config g of None \<Rightarrow> []
      | Some c \<Rightarrow> (case downlink c of None \<Rightarrow> [] | Some l \<Rightarrow> l))"

text \<open>\<open>InterfaceServer.is_ufd_port\<close>, on the list that \<open>get_ufd\<close> returns.\<close>

fun is_ufd_port :: "string \<Rightarrow> ufd_group list \<Rightarrow> bool" where
  "is_ufd_port ifname [] = False"
| "is_ufd_port ifname (g # gs) =
     (if ifname \<in> set (get_uplink g) then True
      else if ifname \<in> set (get_downlink g) then True
      else is_ufd_port ifname gs)"

text \<open>
  \<open>InterfaceServer.is_downlink_port\<close>.  Inside the \<open>try\<close>, a missing
  \<open>config\<close>, \<open>downlink\<close> or \<open>uplink\<close> key raises \<open>KeyError\<close>, which the bare
  \<open>except\<close> swallows: the loop goes on to the next group.
\<close>

fun is_downlink_port :: "string \<Rightarrow> ufd_group list \<Rightarrow> bool \<times> string list option" where
  "is_downlink_port ifname [] = (False, None)"
| "is_downlink_port ifname (g # gs) =
     (case group_config g of
        None \<Rightarrow> is_downlink_port ifname gs
      | Some c \<Rightarrow>
         (case downlink c of
            None \<Rightarrow> is_downlink_port ifname gs
          | Some dl \<Rightarrow>
             if ifname \<in> set dl then
               (case uplink c of
                  None \<Rightarrow> is_downlink_port ifname gs
                | Some ul \<Rightarrow> (True, Some ul))
             else is_downlink_port ifname gs))"

section \<open>Operational status\<close>

text \<open>
  \<open>InterfaceServer.get_oper_status\<close>.  \<open>raw\<close> is the driver's
  \<open>sonic.get_oper_status\<close>, \<open>None\<close> when the driver has no status; the result is
  \<open>None\<close> when the method falls off its end.
\<close>

definition get_oper_status ::
    "(string \<Rightarrow> string option) \<Rightarrow> ufd_group list \<Rightarrow> string \<Rightarrow> string option" where
  "get_oper_status raw ufd_list ifname =
     (let oper_status = raw ifname;
          (downlink_port, uplink_port) = is_downlink_port ifname ufd_list
      in case (downlink_port, uplink_port) of
           (True, Some (u # us)) \<Rightarrow>
             if raw u = Some ''down'' then Some ''DORMANT''
             else map_option upper oper_status
         | _ \<Rightarrow> map_option upper oper_status)"

text \<open>
  The resolver as the specification words it: DORMANT when the interface is a
  downlink of some group all of whose configured uplinks are raw \<open>down\<close>,
  otherwise the raw status in uppercase.
\<close>

definition resolve_spec ::
    "(string \<Rightarrow> string option) \<Rightarrow> ufd_group list \<Rightarrow> string \<Rightarrow> string option" where
  "resolve_spec raw ufd_list ifname =
     (if \<exists>g \<in> set ufd_list. ifname \<in> set (get_downlink g)
            \<and> (\<forall>u \<in> set (get_uplink g). raw u = Some ''down'')
      then Some ''DORMANT''
      else map_option upper (raw ifname))"

text \<open>
  A group counts for \<open>is_downlink_port\<close> when it has a \<open>config\<close> with both member
  lists and the interface is among its downlinks.
\<close>

definition lists_downlink :: "string \<Rightarrow> ufd_group \<Rightarrow> bool" where
  "lists_downlink ifname g =
     (case group_config g of
        None \<Rightarrow> False
      | Some c \<Rightarrow>
         (case downlink c of
            None \<Rightarrow> False
          | Some dl \<Rightarrow> ifname \<in> set dl \<and> uplink c \<noteq> None))"

section \<open>Notification bridge\<close>

text \<open>
  One message of the key-space feed, together with what the driver and the
  datastore answer while it is handled: the raw status of every interface and
  the UFD groups.
\<close>

record signal =
  msg_pattern :: "string option"
  msg_channel :: string
  sig_raw :: "string \<Rightarrow> string option"
  sig_ufd :: "ufd_group list"

text \<open>
  The bridge's state: the cache \<open>sonic.notif_if\<close> of the status last notified per
  interface, and the notifications handed to \<open>send_notification\<close>, oldest first,
  each an interface name with its \<open>oper-status\<close>.
\<close>

record bridge =
  notif_if :: "string \<Rightarrow> string option"
  sent :: "(string \<times> string option) list"

text \<open>\<open>channel.split(":")[-1]\<close>.\<close>

definition last_field :: "string \<Rightarrow> string" where
  "last_field ch = rev (takeWhile (\<lambda>c. c \<noteq> CHR '':'') (rev ch))"

text \<open>The body of the \<open>async for\<close> loop of \<open>InterfaceServer.event_handler\<close>.\<close>

definition handle_msg :: "signal \<Rightarrow> bridge \<Rightarrow> bridge" where
  "handle_msg m b =
     (if msg_pattern m = None then b
      else
        (let ifname = last_field (msg_channel m);
             oper_status = sig_raw m ifname;
             curr_oper_status = (case notif_if b ifname of None \<Rightarrow> ''unknown'' | Some v \<Rightarrow> v)
         in case oper_status of
              None \<Rightarrow> b
            | Some st \<Rightarrow>
               if curr_oper_status = st then b
               else b\<lparr>sent := sent b @ [(ifname, get_oper_status (sig_raw m) (sig_ufd m) ifname)],
                      notif_if := (notif_if b)(ifname \<mapsto> st)\<rparr>))"

text \<open>The loop over the messages delivered so far.\<close>

fun event_handler :: "signal list \<Rightarrow> bridge \<Rightarrow> bridge" where
  "event_handler [] b = b"
| "event_handler (m # ms) b = event_handler ms (handle_msg m b)"

section \<open>Breakout validation\<close>

text \<open>\<open>v[k]\<close> and \<open>k in v\<close> on a value.\<close>

fun subscript :: "yval \<Rightarrow> string \<Rightarrow> error + yval" where
  "subscript (YDict d) k = dict_item d k"
| "subscript _ k = Inl TypeError"

fun key_in :: "string \<Rightarrow> yval \<Rightarrow> error + bool" where
  "key_in k (YDict d) = Inr (k \<in> fst ` set d)"
| "key_in k (YList l) = Inr (YStr k \<in> set l)"
| "key_in k (YStr s) = Inr (contains s k)"
| "key_in k _ = Inl TypeError"

text \<open>
  \<open>cache["ethernet"]["breakout"]["config"]\<close>, where \<open>cache\<close> is what
  \<open>libyang.xpath_get\<close> finds for the interface in the post-change configuration,
  \<open>None\<close> when it finds nothing.
\<close>

definition breakout_config :: "yval option \<Rightarrow> error + yval" where
  "breakout_config cache =
     (case cache of
        None \<Rightarrow> Inl TypeError
      | Some c \<Rightarrow>
         (case subscript c ''ethernet'' of
            Inl e \<Rightarrow> Inl e
          | Inr eth \<Rightarrow>
             (case subscript eth ''breakout'' of
                Inl e \<Rightarrow> Inl e
              | Inr b \<Rightarrow> subscript b ''config'')))"

text \<open>
  \<open>BreakoutHandler.validate\<close>.  \<open>ufd_list\<close> is what \<open>get_ufd\<close> returns and
  \<open>cache\<close> the interface's subtree of the post-change configuration.
\<close>

definition BreakoutHandler_validate ::
    "ufd_group list \<Rightarrow> yval option \<Rightarrow> change \<Rightarrow> error + unit" where
  "BreakoutHandler_validate ufd_list cache c =
     (if ch_type c \<in> {Created, Modified} then
        if \<not> contains (ch_ifname c) ''_1'' then
          Inl (InvalArgError ''breakout cannot be configured on a sub-interface'')
        else if is_ufd_port (ch_ifname c) ufd_list then
          Inl (InvalArgError
                 ''Breakout cannot be configured on the interface that is part of UFD'')
        else
          (case breakout_config cache of
             Inl e \<Rightarrow> Inl e
           | Inr config \<Rightarrow>
              (case key_in ''num-channels'' config of
                 Inl e \<Rightarrow> Inl e
               | Inr has_numch \<Rightarrow>
                  if \<not> has_numch then
                    Inl (InvalArgError ''both num-channels and channel-speed must be set at once'')
                  else
                    (case key_in ''channel-speed'' config of
                       Inl e \<Rightarrow> Inl e
                     | Inr has_speed \<Rightarrow>
                        if \<not> has_speed then
                          Inl (InvalArgError
                                 ''both num-channels and channel-speed must be set at once'')
                        else Inr ())))
      else Inr ())"

text \<open>
  The name of a derived channel other than the first: \<open><port>_<c>\<close> with a port
  name free of underscores and a channel \<open>c\<close> other than \<open>1\<close>.
\<close>

definition non_primary_sub_interface :: "string \<Rightarrow> bool" where
  "non_primary_sub_interface ifname =
     (case rev ifname of
        c # u # port \<Rightarrow> u = CHR ''_'' \<and> c \<noteq> CHR ''1'' \<and> CHR ''_'' \<notin> set port
      | _ \<Rightarrow> False)"

section \<open>Reconciliation\<close>

text \<open>\<open>d[k] = v\<close> on a dict: an existing key keeps its place, a new one goes last.\<close>

fun dict_set :: "('k \<times> 'v) list \<Rightarrow> 'k \<Rightarrow> 'v \<Rightarrow> ('k \<times> 'v) list" where
  "dict_set [] k v = [(k, v)]"
| "dict_set ((k', v') # d) k v = (if k' = k then (k, v) # d else (k', v') # dict_set d k v)"

text \<open>Sequencing of a computation that may raise.\<close>

definition bind_err :: "error + 'a \<Rightarrow> ('a \<Rightarrow> error + 'b) \<Rightarrow> error + 'b" where
  "bind_err r f = (case r of Inl e \<Rightarrow> Inl e | Inr x \<Rightarrow> f x)"

text \<open>
  \<open>v.get(k, dflt)\<close> on a value, and the containers the replay iterates over.  The
  schema makes them dicts and lists; a value of another type is reported as
  \<open>TypeError\<close> where it is taken out of the tree.
\<close>

fun yget :: "yval \<Rightarrow> string \<Rightarrow> yval \<Rightarrow> error + yval" where
  "yget (YDict d) k dflt = Inr (dict_get d k dflt)"
| "yget _ k dflt = Inl AttributeError"

fun as_dict :: "yval \<Rightarrow> error + pydict" where
  "as_dict (YDict d) = Inr d"
| "as_dict _ = Inl TypeError"

fun as_list :: "yval \<Rightarrow> error + yval list" where
  "as_list (YList l) = Inr l"
| "as_list _ = Inl TypeError"

text \<open>
  The active port map of the forwarding plane: interface name to channel count
  and channel speed.
\<close>

type_synonym portmap = "(string \<times> (yval \<times> int option)) list"

text \<open>Calls to the collaborators and to the logger, as they are recorded.\<close>

datatype call =
    UpdateUsonicConfig portmap
  | Restart
  | Wait
  | CacheCounters
  | RunBcmcmdPort string string
  | SetConfigDb string string yval
  | ServerReconcile nat
  | LogWarn string yval

text \<open>A schema node as \<open>conn.find_node\<close> returns it.\<close>

record schema_node =
  node_type :: string
  node_default :: yval

text \<open>
  What the collaborators answer during one reconcile run: the running
  configuration (whole, and per interface), the interface names, the schema,
  the default interface types, the speed conversions, the number of cooperating
  servers, and for every call whether it raises.
\<close>

record env =
  top_config :: pydict
  running_data :: "string \<Rightarrow> pydict"
  get_ifnames :: "string list"
  find_node :: "string \<Rightarrow> schema_node option"
  get_default_iftype :: "string \<Rightarrow> string option"
  helpers :: sonic_helpers
  servers :: nat
  raises :: "call \<Rightarrow> error option"

text \<open>
  The adapter's view of the driver: the busy flag, the active port map, the
  local state table, and the calls made so far, oldest first.
\<close>

record sonic =
  is_rebooting :: bool
  usonic_config :: portmap
  config_db :: "string \<times> string \<Rightarrow> yval option"
  calls :: "call list"

type_synonym 'a act = "sonic \<Rightarrow> (error + 'a) \<times> sonic"

definition ret :: "'a \<Rightarrow> 'a act" where
  "ret x s = (Inr x, s)"

definition lift :: "error + 'a \<Rightarrow> 'a act" where
  "lift r s = (r, s)"

definition bnd :: "'a act \<Rightarrow> ('a \<Rightarrow> 'b act) \<Rightarrow> 'b act" where
  "bnd m f s = (case m s of (Inl e, s') \<Rightarrow> (Inl e, s') | (Inr x, s') \<Rightarrow> f x s')"

text \<open>
  Modelled from the spec: the driver module is not part of the sources at hand.
  A field set goes to the local state table (section 6, per-interface field
  get/set against a local state table); every other call leaves the modelled
  state alone.
\<close>

fun effect :: "call \<Rightarrow> sonic \<Rightarrow> sonic" where
  "effect (SetConfigDb ifname key v) s = s\<lparr>config_db := (config_db s)((ifname, key) \<mapsto> v)\<rparr>"
| "effect _ s = s"

text \<open>A collaborator call: recorded, then it raises or takes effect.\<close>

definition invoke :: "env \<Rightarrow> call \<Rightarrow> unit act" where
  "invoke env c s =
     (let s' = s\<lparr>calls := calls s @ [c]\<rparr>
      in case raises env c of
           Some e \<Rightarrow> (Inl e, s')
         | None \<Rightarrow> (Inr (), effect c s'))"

text \<open>\<open>logger.warn\<close> records its message and never raises.\<close>

definition logger_warn :: "string \<Rightarrow> yval \<Rightarrow> unit act" where
  "logger_warn key v s = (Inr (), s\<lparr>calls := calls s @ [LogWarn key v]\<rparr>)"

text \<open>
  Modelled from the spec: \<open>k8s.update_usonic_config\<close> is not part of the sources
  at hand.  Section 4.5 step 3 and section 6 (\<open>update_port_map(map) -> changed\<close>):
  the map is compared against the currently active port map, pushed when it
  differs, and the answer tells whether it differed.
\<close>

definition update_usonic_config :: "env \<Rightarrow> portmap \<Rightarrow> bool act" where
  "update_usonic_config env intfs s =
     (let s' = s\<lparr>calls := calls s @ [UpdateUsonicConfig intfs]\<rparr>
      in case raises env (UpdateUsonicConfig intfs) of
           Some e \<Rightarrow> (Inl e, s')
         | None \<Rightarrow> (Inr (usonic_config s \<noteq> intfs), s'\<lparr>usonic_config := intfs\<rparr>))"

text \<open>
  The loop of \<open>breakout_update_usonic\<close> that builds \<open>intfs\<close>; an interface
  name is a string by the schema.
\<close>

fun port_map_loop :: "sonic_helpers \<Rightarrow> yval list \<Rightarrow> portmap \<Rightarrow> error + portmap" where
  "port_map_loop h [] intfs = Inr intfs"
| "port_map_loop h (i # is) intfs =
     bind_err (subscript i ''name'') (\<lambda>name.
     bind_err (yget i ''ethernet'' (YDict [])) (\<lambda>e.
     bind_err (yget e ''breakout'' (YDict [])) (\<lambda>bk.
     bind_err (yget bk ''config'' (YDict [])) (\<lambda>b.
     bind_err (yget b ''num-channels'' YNone) (\<lambda>numch.
     bind_err (yget b ''channel-speed'' YNone) (\<lambda>cs.
       (case name of
          YStr n \<Rightarrow> port_map_loop h is (dict_set intfs n (numch, speed_yang_to_redis h cs))
        | _ \<Rightarrow> Inl TypeError)))))))"

definition port_map :: "sonic_helpers \<Rightarrow> pydict \<Rightarrow> error + portmap" where
  "port_map h config =
     bind_err (yget (dict_get config ''interfaces'' (YDict [])) ''interface'' (YList [])) (\<lambda>l.
     bind_err (as_list l) (\<lambda>is. port_map_loop h is []))"

text \<open>\<open>InterfaceServer.breakout_update_usonic\<close>.\<close>

definition breakout_update_usonic :: "env \<Rightarrow> pydict \<Rightarrow> bool act" where
  "breakout_update_usonic env config =
     bnd (lift (port_map (helpers env) config)) (\<lambda>intfs.
     bnd (update_usonic_config env intfs) (\<lambda>is_updated.
     bnd (if is_updated then invoke env Restart else ret ()) (\<lambda>_.
     ret is_updated)))"

text \<open>\<open>InterfaceServer.get_default\<close>.\<close>

definition xpath_of :: "string list \<Rightarrow> string" where
  "xpath_of k = concat (map (\<lambda>v. ''/goldstone-interfaces:'' @ v) k)"

fun get_default_loop :: "env \<Rightarrow> string \<Rightarrow> string list list \<Rightarrow> error + yval" where
  "get_default_loop env key [] = Inl (PyException (''default value not found for '' @ key))"
| "get_default_loop env key (k # ks) =
     (case find_node env (xpath_of k) of
        None \<Rightarrow> get_default_loop env key ks
      | Some node \<Rightarrow>
         if node_type node = ''boolean'' then Inr (YBool (node_default node = YStr ''true''))
         else Inr (node_default node))"

definition get_default :: "env \<Rightarrow> string \<Rightarrow> error + yval" where
  "get_default env key =
     get_default_loop env key
       ([''interfaces'', ''interface'', ''config'', key]
        # [''interfaces'', ''interface'', ''ethernet'', ''config'', key]
        # [''interfaces'', ''interface'', ''ethernet'', ''auto-negotiate'', ''config'', key]
        # [])"

text \<open>\<open>InterfaceServer.pre\<close>.\<close>

definition pre :: "sonic \<Rightarrow> error + unit" where
  "pre s = (if is_rebooting s then Inl (LockedError ''uSONiC is rebooting'') else Inr ())"

text \<open>
  \<open>",".join(v.replace("SPEED_", "").lower() for v in value)\<close> for the advertised
  speeds.
\<close>

fun speed_name :: "yval \<Rightarrow> error + string" where
  "speed_name (YStr v) = Inr (lower (str_replace ''SPEED_'' [] v))"
| "speed_name _ = Inl AttributeError"

fun speed_names :: "yval list \<Rightarrow> error + string list" where
  "speed_names [] = Inr []"
| "speed_names (v # vs) =
     bind_err (speed_name v) (\<lambda>n. bind_err (speed_names vs) (\<lambda>ns. Inr (n # ns)))"

definition adv_speeds :: "yval \<Rightarrow> error + string" where
  "adv_speeds v = bind_err (as_list v) (\<lambda>l. bind_err (speed_names l) (\<lambda>ns. Inr (join '','' ns)))"

text \<open>The loop over \<open>autoneg.items()\<close>.\<close>

fun replay_autoneg :: "env \<Rightarrow> string \<Rightarrow> pydict \<Rightarrow> unit act" where
  "replay_autoneg env ifname [] = ret ()"
| "replay_autoneg env ifname ((key, v) # rest) =
     bnd (if key = ''enabled'' then
            invoke env (RunBcmcmdPort ifname (''an='' @ (if truthy v then ''yes'' else ''no'')))
          else if key = ''advertised-speeds'' then
            bnd (lift (adv_speeds v)) (\<lambda>speeds.
              invoke env (RunBcmcmdPort ifname (''adv='' @ speeds)))
          else ret ())
       (\<lambda>_. replay_autoneg env ifname rest)"

text \<open>
  The loop over the keys of \<open>ethernet\<close>.  In its last branch the message reads
  \<open>config[key]\<close>, and \<open>config\<close> at this point is not the dict being iterated: it
  is the whole running configuration for the first interface, and the
  \<open>config\<close> container of the previous interface after that.
\<close>

fun replay_ethernet :: "env \<Rightarrow> string \<Rightarrow> pydict \<Rightarrow> pydict \<Rightarrow> unit act" where
  "replay_ethernet env ifname config [] = ret ()"
| "replay_ethernet env ifname config ((key, v) # rest) =
     bnd (if key = ''interface-type'' then
            (case v of
               YStr t \<Rightarrow> invoke env (RunBcmcmdPort ifname (''if='' @ t))
             | _ \<Rightarrow> lift (Inl TypeError))
          else if key \<in> set [''mtu'', ''fec'', ''speed''] then
            invoke env (SetConfigDb ifname key v)
          else
            bnd (lift (dict_item config key)) (\<lambda>w. logger_warn key w))
       (\<lambda>_. replay_ethernet env ifname config rest)"

text \<open>The loop over the keys of \<open>config\<close>.\<close>

fun replay_config :: "env \<Rightarrow> string \<Rightarrow> pydict \<Rightarrow> unit act" where
  "replay_config env ifname [] = ret ()"
| "replay_config env ifname ((key, v) # rest) =
     bnd (if key \<in> set [''admin-status'', ''description''] then
            invoke env (SetConfigDb ifname key v)
          else if key \<in> set [''name''] then ret ()
          else logger_warn key v)
       (\<lambda>_. replay_config env ifname rest)"

text \<open>\<open>if key not in d: d[key] = self.get_default(key)\<close>.\<close>

definition fill_default :: "env \<Rightarrow> string \<Rightarrow> pydict \<Rightarrow> error + pydict" where
  "fill_default env key d =
     (if key \<notin> fst ` set d then bind_err (get_default env key) (\<lambda>v. Inr (dict_set d key v))
      else Inr d)"

definition fill_enabled :: "env \<Rightarrow> pydict \<Rightarrow> error + pydict" where
  "fill_enabled env autoneg =
     (if ''enabled'' \<notin> fst ` set autoneg then
        bind_err (get_default env ''enabled'') (\<lambda>v.
          Inr (dict_set autoneg ''enabled'' (YBool (v = YStr ''true''))))
      else Inr autoneg)"

definition fill_iftype :: "env \<Rightarrow> string \<Rightarrow> pydict \<Rightarrow> pydict" where
  "fill_iftype env ifname ethernet =
     (if ''interface-type'' \<notin> fst ` set ethernet then
        (case get_default_iftype env ifname of
           None \<Rightarrow> ethernet
         | Some t \<Rightarrow> if t \<noteq> [] then dict_set ethernet ''interface-type'' (YStr t) else ethernet)
      else ethernet)"

text \<open>The three containers of an interface that the replay reads.\<close>

definition autoneg_of :: "pydict \<Rightarrow> error + pydict" where
  "autoneg_of data =
     bind_err (yget (dict_get data ''ethernet'' (YDict [])) ''auto-negotiate'' (YDict [])) (\<lambda>a.
     bind_err (yget a ''config'' (YDict [])) as_dict)"

definition ethernet_of :: "pydict \<Rightarrow> error + pydict" where
  "ethernet_of data =
     bind_err (yget (dict_get data ''ethernet'' (YDict [])) ''config'' (YDict [])) as_dict"

definition config_of :: "pydict \<Rightarrow> error + pydict" where
  "config_of data = as_dict (dict_get data ''config'' (YDict []))"

text \<open>
  The body of the loop over the interface names in \<open>reconcile\<close>.  It takes the
  value of the variable \<open>config\<close> on entry and returns its value on exit.
\<close>

definition replay_interface :: "env \<Rightarrow> string \<Rightarrow> pydict \<Rightarrow> pydict act" where
  "replay_interface env ifname config =
     (let data = running_data env ifname in
      bnd (lift (bind_err (autoneg_of data) (fill_enabled env))) (\<lambda>autoneg.
      bnd (replay_autoneg env ifname autoneg) (\<lambda>_.
      bnd (lift (bind_err (ethernet_of data) (\<lambda>e.
                 bind_err (fill_default env ''mtu'' e) (\<lambda>e.
                 bind_err (fill_default env ''fec'' e) (\<lambda>e.
                 Inr (fill_iftype env ifname e)))))) (\<lambda>ethernet.
      bnd (replay_ethernet env ifname config ethernet) (\<lambda>_.
      bnd (lift (bind_err (config_of data) (fill_default env ''admin-status''))) (\<lambda>config'.
      bnd (replay_config env ifname config') (\<lambda>_.
      ret config')))))))"

fun replay_interfaces :: "env \<Rightarrow> string list \<Rightarrow> pydict \<Rightarrow> unit act" where
  "replay_interfaces env [] config = ret ()"
| "replay_interfaces env (ifname # rest) config =
     bnd (replay_interface env ifname config) (\<lambda>config'. replay_interfaces env rest config')"

text \<open>The loop over the cooperating servers.\<close>

fun reconcile_servers :: "env \<Rightarrow> nat list \<Rightarrow> unit act" where
  "reconcile_servers env [] = ret ()"
| "reconcile_servers env (i # is) =
     bnd (invoke env (ServerReconcile i)) (\<lambda>_. reconcile_servers env is)"

definition set_rebooting :: "bool \<Rightarrow> unit act" where
  "set_rebooting b s = (Inr (), s\<lparr>is_rebooting := b\<rparr>)"

text \<open>\<open>InterfaceServer.reconcile\<close>.\<close>

definition reconcile :: "env \<Rightarrow> unit act" where
  "reconcile env =
     bnd (set_rebooting True) (\<lambda>_.
     bnd (breakout_update_usonic env (top_config env)) (\<lambda>is_updated.
     bnd (if is_updated then invoke env Wait else invoke env CacheCounters) (\<lambda>_.
     bnd (replay_interfaces env (get_ifnames env) (top_config env)) (\<lambda>_.
     bnd (reconcile_servers env [0 ..< servers env]) (\<lambda>_.
     set_rebooting False)))))"

text \<open>
  \<open>InterfaceServer.handle_tasks\<close>, for a number of turns of its loop.  The queue
  holds pending \<open>reconcile()\<close> tasks.  A turn that finds the queue empty goes on;
  an exception of the awaited task is not caught (only \<open>queue.Empty\<close> is) and
  ends the loop.  \<open>Inr ()\<close> says the loop is still running after these turns.
\<close>

fun handle_tasks :: "env \<Rightarrow> nat \<Rightarrow> nat \<times> sonic \<Rightarrow> (error + unit) \<times> (nat \<times> sonic)" where
  "handle_tasks env 0 (queue, s) = (Inr (), (queue, s))"
| "handle_tasks env (Suc n) (queue, s) =
     (if queue = 0 then handle_tasks env n (queue, s)
      else (case reconcile env s of
              (Inl e, s') \<Rightarrow> (Inl e, (queue - 1, s'))
            | (Inr _, s') \<Rightarrow> handle_tasks env n (queue - 1, s')))"

text \<open>
  An action is uniform when its outcome does not depend on the state it starts
  from, and all it does to the state is add a fixed set of writes to the local
  state table and a fixed list of calls, none of them a restart.
\<close>

definition uniform :: "'a act \<Rightarrow> bool" where
  "uniform m = (\<exists>r W cs. Restart \<notin> set cs \<and>
      (\<forall>s. m s = (r, s\<lparr>config_db := config_db s ++ W, calls := calls s @ cs\<rparr>)))"

section \<open>Concrete configurations\<close>


definition helpers_ex :: sonic_helpers where
  "helpers_ex = \<lparr>speed_yang_to_redis = (\<lambda>v. if v = YStr ''SPEED_100G'' then Some 100000
                     else if v = YStr ''SPEED_40G'' then Some 40000
                     else if v = YStr ''SPEED_10G'' then Some 10000 else None),
                 speed_redis_to_yang = (\<lambda>n. if n = 100000 then ''SPEED_100G''
                     else if n = 40000 then ''SPEED_40G'' else ''SPEED_UNKNOWN'')\<rparr>"

definition ufd_ex :: "ufd_group list" where
  "ufd_ex = [\<lparr>ufd_id = ''1'', group_config = Some \<lparr>uplink = Some [''Ethernet1_1'', ''Ethernet2_1''],
                 downlink = Some [''Ethernet3_1'']\<rparr>\<rparr>]"

definition cache_no_speed :: "yval option" where
  "cache_no_speed = Some (YDict [(''name'', YStr ''Ethernet5_1''),
      (''ethernet'', YDict [(''breakout'', YDict [(''config'', YDict [(''num-channels'', YInt 4)])])])])"

definition raw_first_down :: "string \<Rightarrow> string option" where
  "raw_first_down n = (if n = ''Ethernet1_1'' then Some ''down'' else Some ''up'')"

definition raw_all_down :: "string \<Rightarrow> string option" where
  "raw_all_down n = (if n = ''Ethernet1_1'' \<or> n = ''Ethernet2_1'' then Some ''down'' else Some ''up'')"

definition raw_first_up :: "string \<Rightarrow> string option" where
  "raw_first_up n = (if n = ''Ethernet2_1'' \<or> n = ''Ethernet3_1'' then Some ''down'' else Some ''up'')"

definition raw_everything_down :: "string \<Rightarrow> string option" where
  "raw_everything_down n = Some ''down''"

definition bridge_init :: bridge where
  "bridge_init = \<lparr>notif_if = (\<lambda>_. None), sent = []\<rparr>"

definition signal_up :: signal where
  "signal_up = \<lparr>msg_pattern = Some ''__keyspace@0__:PORT_TABLE:Ethernet*'',
                 msg_channel = ''__keyspace@0__:PORT_TABLE:Ethernet3_1'',
                 sig_raw = raw_all_down, sig_ufd = ufd_ex\<rparr>"

definition signal_down :: signal where
  "signal_down = \<lparr>msg_pattern = Some ''__keyspace@0__:PORT_TABLE:Ethernet*'',
                 msg_channel = ''__keyspace@0__:PORT_TABLE:Ethernet3_1'',
                 sig_raw = raw_everything_down, sig_ufd = ufd_ex\<rparr>"

definition schema_ex :: "string \<Rightarrow> schema_node option" where
  "schema_ex x =
     (if x = xpath_of [''interfaces'', ''interface'', ''config'', ''admin-status'']
        then Some \<lparr>node_type = ''enumeration'', node_default = YStr ''DOWN''\<rparr>
      else if x = xpath_of [''interfaces'', ''interface'', ''ethernet'', ''config'', ''mtu'']
        then Some \<lparr>node_type = ''uint16'', node_default = YStr ''9100''\<rparr>
      else if x = xpath_of [''interfaces'', ''interface'', ''ethernet'', ''config'', ''fec'']
        then Some \<lparr>node_type = ''enumeration'', node_default = YStr ''NONE''\<rparr>
      else if x = xpath_of [''interfaces'', ''interface'', ''ethernet'', ''auto-negotiate'',
                            ''config'', ''enabled'']
        then Some \<lparr>node_type = ''boolean'', node_default = YStr ''false''\<rparr>
      else None)"

definition env_ex :: env where
  "env_ex =
     \<lparr>top_config = [(''interfaces'', YDict [(''interface'',
                       YList [YDict [(''name'', YStr ''Ethernet1_1'')] ])])],
      running_data = (\<lambda>n. if n = ''Ethernet1_1'' then [(''name'', YStr ''Ethernet1_1'')] else []),
      get_ifnames = [''Ethernet1_1''],
      find_node = schema_ex,
      get_default_iftype = (\<lambda>_. None),
      helpers = helpers_ex,
      servers = 1,
      raises = (\<lambda>_. None)\<rparr>"

definition env_timeout :: env where
  "env_timeout = env_ex\<lparr>raises := (\<lambda>c. if c = Wait then Some (ExternalFailure ''timeout'') else None)\<rparr>"

definition data_unhandled :: pydict where
  "data_unhandled =
     [(''name'', YStr ''Ethernet1_1''),
      (''ethernet'', YDict [(''config'', YDict [(''pin-mode'', YStr ''NRZ'')])])]"

definition env_unhandled :: env where
  "env_unhandled =
     env_ex\<lparr>top_config := [(''interfaces'', YDict [(''interface'', YList [YDict data_unhandled])])],
            running_data := (\<lambda>n. if n = ''Ethernet1_1'' then data_unhandled else [])\<rparr>"

definition sonic_init :: sonic where
  "sonic_init = \<lparr>is_rebooting = False, usonic_config = [], config_db = (\<lambda>_. None), calls = []\<rparr>"

section \<open>Breakout detail lookup\<close>

lemma breakout_detail_raises_for_any_name:
  assumes "breakout_state ds ifname = Inr (Some data)" and "data \<noteq> []"
    and "gt_one (dict_get data ''num-channels'' (YInt 1)) = Inr False"
  shows "get_breakout_detail ds ifname = Inl (NameError ''name'')"
  using assms by (simp add: get_breakout_detail_def)

text \<open>
  Claim C9.  For an interface name that does not end in \<open>_1\<close>, when the interface's
  own breakout state exists (a non-empty dict) and its \<open>num-channels\<close> is at most 1
  (or absent, which defaults to 1), \<open>get_breakout_detail\<close> raises \<open>NameError\<close>
  for the undefined variable \<open>name\<close>: it returns neither the parent's breakout
  detail nor \<open>None\<close>.
\<close>

theorem get_breakout_detail_NameError:
  assumes "\<not> endswith ifname ''_1''"
    and "breakout_state ds ifname = Inr (Some data)" and "data \<noteq> []"
    and "dict_get data ''num-channels'' (YInt 1) = YInt n" and "n \<le> 1"
  shows "get_breakout_detail ds ifname = Inl (NameError ''name'')
         \<and> (\<forall>r. get_breakout_detail ds ifname \<noteq> Inr r)"
  using assms by (simp add: get_breakout_detail_def)

theorem get_breakout_detail_NameError_witness:
  "\<not> endswith ''Ethernet1_2'' ''_1''
   \<and> get_breakout_detail
        \<lparr>if_running = (\<lambda>_. Inr None),
         breakout_state = (\<lambda>_. Inr (Some [(''num-channels'', YInt 1)]))\<rparr>
        ''Ethernet1_2'' = Inl (NameError ''name'')"
proof -
  have a: "\<not> endswith ''Ethernet1_2'' ''_1''"
    by (simp add: endswith_def suffix_to_prefix)
  show ?thesis
    using a get_breakout_detail_NameError
      [of "''Ethernet1_2''"
          "\<lparr>if_running = (\<lambda>_. Inr None),
            breakout_state = (\<lambda>_. Inr (Some [(''num-channels'', YInt 1)]))\<rparr>"
          "[(''num-channels'', YInt 1)]" 1]
    by (simp add: dict_get_def)
qed

section \<open>Interface types under a four-channel breakout\<close>






text \<open>
  Without a breakout configuration the published state is empty, the channel
  count falls back to 1, and it is the quad-lane types that pass.
\<close>

lemma validate_interface_type_no_breakout:
  assumes "endswith ifname ''_1'' \<or> CHR ''_'' \<notin> set ifname"
    and "tree st ifname = Some t"
    and "lookup_path t [''ethernet'', ''breakout'', ''config''] = None"
    and "on_missing st = Inr None \<or> on_missing st = Inl NotFoundError"
  shows "validate_interface_type (datastore_of st) ifname iftype =
           (if iftype \<in> set QUAD_LANE_INTERFACE_TYPES then Inr ()
            else Inl (InvalArgError ''Unsupported interface type''))"
  using assms
  by (auto simp: validate_interface_type_def breakout_numch_def catch_numch_def
      get_breakout_detail_def datastore_of_def oper_cb_breakout_state_def
      get_running_data_def unsupported_iftype_def)

section \<open>Advertised-speeds validation\<close>

text \<open>
  Claim C10.  For a created or modified advertised-speeds event whose value is
  outside the valid speed set of the target interface,
  \<open>AutoNegotiateAdvertisedSpeedsHandler.validate\<close> raises \<open>NameError\<close> (its
  message refers to the undefined \<open>change\<close>) and never the intended
  \<open>InvalArgError\<close>.
\<close>

theorem adv_speeds_validate_NameError:
  assumes "ch_type c \<in> {Created, Modified}"
    and "speed_yang_to_redis h (YStr (ch_value c)) \<notin> set (map Some (valid_speeds (ch_ifname c)))"
  shows "AutoNegotiateAdvertisedSpeedsHandler_validate h c = Inl (NameError ''change'')
         \<and> (\<forall>msg. AutoNegotiateAdvertisedSpeedsHandler_validate h c \<noteq> Inl (InvalArgError msg))"
  using assms by (simp add: AutoNegotiateAdvertisedSpeedsHandler_validate_def Let_def)

theorem adv_speeds_validate_NameError_witness:
  "AutoNegotiateAdvertisedSpeedsHandler_validate helpers_ex
      \<lparr>ch_ifname = ''Ethernet1_1'', ch_type = Created, ch_value = ''SPEED_10G''\<rparr>
    = Inl (NameError ''change'')"
  using adv_speeds_validate_NameError
    [of "\<lparr>ch_ifname = ''Ethernet1_1'', ch_type = Created, ch_value = ''SPEED_10G''\<rparr>" helpers_ex]
  by (simp add: helpers_ex_def valid_speeds_def endswith_def suffix_to_prefix)

section \<open>Speed validation\<close>

text \<open>
  Claim C7, as the code has it.  For a created or modified speed event on an
  interface that is not a primary one (its name does not end in \<open>_1\<close>) every
  value is invalid, and in general for every value outside the valid speed set,
  \<open>SpeedHandler.validate\<close> fails with \<open>InvalArgError\<close>; the message names the
  offending value and the candidate values (none for a non-primary interface).
  The validator is a function of the event alone: it takes no state and returns
  none, so nothing is changed.
\<close>

theorem speed_validate_message:
  assumes "ch_type c \<in> {Created, Modified}"
  shows "(\<not> endswith (ch_ifname c) ''_1'' \<longrightarrow>
            SpeedHandler_validate h c =
              Inl (InvalArgError (''Invalid speed: '' @ ch_value c @ '', candidates: '')))
       \<and> (speed_yang_to_redis h (YStr (ch_value c)) \<notin> set (map Some (valid_speeds (ch_ifname c))) \<longrightarrow>
            SpeedHandler_validate h c =
              Inl (InvalArgError (''Invalid speed: '' @ ch_value c @ '', candidates: ''
                     @ join '','' (map (speed_redis_to_yang h) (valid_speeds (ch_ifname c))))))"
  using assms by (simp add: SpeedHandler_validate_def Let_def valid_speeds_def)

theorem speed_validate_message_witness:
  "SpeedHandler_validate helpers_ex
      \<lparr>ch_ifname = ''Ethernet1_2'', ch_type = Modified, ch_value = ''SPEED_10G''\<rparr>
    = Inl (InvalArgError ''Invalid speed: SPEED_10G, candidates: '')
   \<and> SpeedHandler_validate helpers_ex
      \<lparr>ch_ifname = ''Ethernet1_1'', ch_type = Modified, ch_value = ''SPEED_10G''\<rparr>
    = Inl (InvalArgError ''Invalid speed: SPEED_10G, candidates: SPEED_40G,SPEED_100G'')"
  using speed_validate_message
    [of "\<lparr>ch_ifname = ''Ethernet1_2'', ch_type = Modified, ch_value = ''SPEED_10G''\<rparr>" helpers_ex]
    speed_validate_message
    [of "\<lparr>ch_ifname = ''Ethernet1_1'', ch_type = Modified, ch_value = ''SPEED_10G''\<rparr>" helpers_ex]
  by (simp add: helpers_ex_def valid_speeds_def endswith_def suffix_to_prefix)

text \<open>
  Claim C7 as stated fails: the message of the validation error does not name
  the offending interface.
\<close>

theorem speed_validate_names_interface_counterexample:
  "SpeedHandler_validate helpers_ex
      \<lparr>ch_ifname = ''Ethernet1_2'', ch_type = Modified, ch_value = ''SPEED_10G''\<rparr>
    = Inl (InvalArgError ''Invalid speed: SPEED_10G, candidates: '')
   \<and> \<not> contains ''Invalid speed: SPEED_10G, candidates: '' ''Ethernet1_2''"
  by (simp add: SpeedHandler_validate_def helpers_ex_def valid_speeds_def endswith_def
      suffix_to_prefix contains_def sublist_code)

section \<open>Breakout validation rejects\<close>

lemma no_underscore_one:
  "CHR ''_'' \<notin> set port \<Longrightarrow> c \<noteq> CHR ''1'' \<Longrightarrow> \<not> sublist ''_1'' (port @ [CHR ''_'', c])"
proof (induction port)
  case Nil
  then show ?case by (simp add: sublist_code)
next
  case (Cons a port)
  then show ?case by (simp add: sublist_Cons_right)
qed

lemma non_primary_not_contains:
  assumes "non_primary_sub_interface n"
  shows "\<not> contains n ''_1''"
proof -
  from assms obtain c port where r: "rev n = c # CHR ''_'' # port"
      and c: "c \<noteq> CHR ''1''" and p: "CHR ''_'' \<notin> set port"
    by (auto simp: non_primary_sub_interface_def split: list.splits)
  from r have "rev (rev n) = rev (c # CHR ''_'' # port)" by simp
  then have "n = rev port @ [CHR ''_'', c]" by simp
  with c p no_underscore_one [of "rev port" c] show ?thesis
    by (simp add: contains_def)
qed

lemma is_ufd_port_iff:
  "is_ufd_port ifname gs \<longleftrightarrow>
     (\<exists>g \<in> set gs. ifname \<in> set (get_uplink g) \<or> ifname \<in> set (get_downlink g))"
  by (induction gs) auto

lemma ufd_member_is_ufd_port:
  assumes "g \<in> set gs" and "group_config g = Some cfg"
    and "uplink cfg = Some l \<or> downlink cfg = Some l" and "ifname \<in> set l"
  shows "is_ufd_port ifname gs"
proof -
  from assms(2-4) have "ifname \<in> set (get_uplink g) \<or> ifname \<in> set (get_downlink g)"
    by (auto simp: get_uplink_def get_downlink_def)
  with assms(1) show ?thesis
    unfolding is_ufd_port_iff by blast
qed

text \<open>
  Claim C8.  A created or modified breakout configuration is rejected with a
  validation error when the target is a non-primary sub-interface, when some
  UFD group has it in its uplink list or in its downlink list, or when the
  post-change breakout configuration of the interface lacks \<open>num-channels\<close> or
  \<open>channel-speed\<close>.
\<close>

theorem breakout_validate_rejects:
  assumes "ch_type c \<in> {Created, Modified}"
    and "non_primary_sub_interface (ch_ifname c)
         \<or> (\<exists>g \<in> set ufd_list. \<exists>cfg l. group_config g = Some cfg
               \<and> (uplink cfg = Some l \<or> downlink cfg = Some l) \<and> ch_ifname c \<in> set l)
         \<or> (\<exists>config. breakout_config cache = Inr (YDict config)
               \<and> (''num-channels'' \<notin> fst ` set config \<or> ''channel-speed'' \<notin> fst ` set config))"
  shows "\<exists>msg. BreakoutHandler_validate ufd_list cache c = Inl (InvalArgError msg)"
proof -
  have m: "is_ufd_port (ch_ifname c) ufd_list"
    if "\<exists>g \<in> set ufd_list. \<exists>cfg l. group_config g = Some cfg
               \<and> (uplink cfg = Some l \<or> downlink cfg = Some l) \<and> ch_ifname c \<in> set l"
    using that ufd_member_is_ufd_port by blast
  consider (a) "\<not> contains (ch_ifname c) ''_1''"
    | (b) "contains (ch_ifname c) ''_1''" "is_ufd_port (ch_ifname c) ufd_list"
    | (c) "contains (ch_ifname c) ''_1''" "\<not> is_ufd_port (ch_ifname c) ufd_list"
          "\<exists>config. breakout_config cache = Inr (YDict config)
               \<and> (''num-channels'' \<notin> fst ` set config \<or> ''channel-speed'' \<notin> fst ` set config)"
    using assms(2) non_primary_not_contains m by blast
  then show ?thesis
  proof cases
    case a
    with assms(1) show ?thesis by (simp add: BreakoutHandler_validate_def)
  next
    case b
    with assms(1) show ?thesis by (simp add: BreakoutHandler_validate_def)
  next
    case c
    then obtain config where "breakout_config cache = Inr (YDict config)"
      and "''num-channels'' \<notin> fst ` set config \<or> ''channel-speed'' \<notin> fst ` set config"
      by blast
    with c(1,2) assms(1) show ?thesis
      by (auto simp: BreakoutHandler_validate_def)
  qed
qed

theorem breakout_validate_rejects_witness:
  "(\<exists>msg. BreakoutHandler_validate [] None
       \<lparr>ch_ifname = ''Ethernet1_2'', ch_type = Created, ch_value = ''4''\<rparr> = Inl (InvalArgError msg))
   \<and> (\<exists>msg. BreakoutHandler_validate ufd_ex None
       \<lparr>ch_ifname = ''Ethernet1_1'', ch_type = Created, ch_value = ''4''\<rparr> = Inl (InvalArgError msg))
   \<and> (\<exists>msg. BreakoutHandler_validate ufd_ex None
       \<lparr>ch_ifname = ''Ethernet3_1'', ch_type = Modified, ch_value = ''4''\<rparr> = Inl (InvalArgError msg))
   \<and> (\<exists>msg. BreakoutHandler_validate ufd_ex cache_no_speed
       \<lparr>ch_ifname = ''Ethernet5_1'', ch_type = Created, ch_value = ''4''\<rparr> = Inl (InvalArgError msg))"
proof -
  have 1: "non_primary_sub_interface ''Ethernet1_2''"
    by (simp add: non_primary_sub_interface_def)
  have 2: "\<exists>g \<in> set ufd_ex. \<exists>cfg l. group_config g = Some cfg
               \<and> (uplink cfg = Some l \<or> downlink cfg = Some l) \<and> ''Ethernet1_1'' \<in> set l"
    by (simp add: ufd_ex_def, rule exI [of _ "[''Ethernet1_1'', ''Ethernet2_1'']"], simp)
  have 3: "\<exists>g \<in> set ufd_ex. \<exists>cfg l. group_config g = Some cfg
               \<and> (uplink cfg = Some l \<or> downlink cfg = Some l) \<and> ''Ethernet3_1'' \<in> set l"
    by (simp add: ufd_ex_def, rule exI [of _ "[''Ethernet3_1'']"], simp)
  have 4: "breakout_config cache_no_speed = Inr (YDict [(''num-channels'', YInt 4)])
           \<and> ''channel-speed'' \<notin> fst ` set [(''num-channels'', YInt 4)]"
    by (simp add: cache_no_speed_def breakout_config_def dict_item_def)
  show ?thesis
    using breakout_validate_rejects
            [of "\<lparr>ch_ifname = ''Ethernet1_2'', ch_type = Created, ch_value = ''4''\<rparr>" "[]" None]
          breakout_validate_rejects
            [of "\<lparr>ch_ifname = ''Ethernet1_1'', ch_type = Created, ch_value = ''4''\<rparr>" ufd_ex None]
          breakout_validate_rejects
            [of "\<lparr>ch_ifname = ''Ethernet3_1'', ch_type = Modified, ch_value = ''4''\<rparr>" ufd_ex None]
          breakout_validate_rejects
            [of "\<lparr>ch_ifname = ''Ethernet5_1'', ch_type = Created, ch_value = ''4''\<rparr>" ufd_ex cache_no_speed]
          1 2 3 4
    by auto
qed

section \<open>Operational-status resolution\<close>

lemma is_downlink_port_skip:
  "\<forall>h \<in> set skipped. \<not> lists_downlink ifname h \<Longrightarrow>
     is_downlink_port ifname (skipped @ gs) = is_downlink_port ifname gs"
  by (induction skipped) (auto simp: lists_downlink_def split: option.splits)

lemma is_downlink_port_none:
  "\<forall>h \<in> set gs. \<not> lists_downlink ifname h \<Longrightarrow> is_downlink_port ifname gs = (False, None)"
  using is_downlink_port_skip [of gs ifname "[]"] by simp

lemma is_downlink_port_hit:
  "group_config g = Some c \<Longrightarrow> downlink c = Some dl \<Longrightarrow> ifname \<in> set dl \<Longrightarrow> uplink c = Some ups
     \<Longrightarrow> is_downlink_port ifname (g # rest) = (True, Some ups)"
  by simp

text \<open>
  Claim C1 as stated fails.  With uplinks \<open>Ethernet1_1\<close> (raw down) and
  \<open>Ethernet2_1\<close> (raw up), not all uplinks of the group are down, and the code
  still answers DORMANT for the downlink \<open>Ethernet3_1\<close>, where the resolver of
  the specification passes the raw status through.
\<close>

theorem get_oper_status_counterexample:
  "get_oper_status raw_first_down ufd_ex ''Ethernet3_1'' = Some ''DORMANT''
   \<and> resolve_spec raw_first_down ufd_ex ''Ethernet3_1'' = Some ''UP''"
  by (simp add: get_oper_status_def resolve_spec_def ufd_ex_def raw_first_down_def
      get_uplink_def get_downlink_def upper_def upper_char_def)

text \<open>
  Claim C1, as the code has it.  The resolver consults the first group, in
  configured order, that lists the interface as a downlink and has an uplink
  list, and in it the first uplink only: when that uplink is raw \<open>down\<close> the
  result is DORMANT whatever the interface's own raw status; otherwise, and for
  an interface that no group lists as a downlink, the result is the raw status
  in uppercase (nothing when the driver reports none).  In particular, for a
  group with uplinks \<open>[a, b]\<close> and downlink \<open>d\<close>: both raw down gives DORMANT,
  and \<open>a\<close> raw up gives the raw status of \<open>d\<close> passed through.
\<close>

theorem get_oper_status_first_uplink:
  shows "((\<forall>h \<in> set skipped. \<not> lists_downlink ifname h) \<and> group_config g = Some c
      \<and> downlink c = Some dl \<and> ifname \<in> set dl \<and> uplink c = Some ups
    \<longrightarrow> get_oper_status raw (skipped @ g # rest) ifname =
          (if ups \<noteq> [] \<and> raw (hd ups) = Some ''down'' then Some ''DORMANT''
           else map_option upper (raw ifname)))
   \<and> ((\<forall>h \<in> set ufd_list. \<not> lists_downlink ifname h)
    \<longrightarrow> get_oper_status raw ufd_list ifname = map_option upper (raw ifname))
   \<and> (raw a = Some ''down'' \<and> raw b = Some ''down'' \<longrightarrow>
        get_oper_status raw [\<lparr>ufd_id = i, group_config = Some \<lparr>uplink = Some [a, b], downlink = Some [d]\<rparr>\<rparr>] d
          = Some ''DORMANT'')
   \<and> (raw a = Some ''up'' \<longrightarrow>
        get_oper_status raw [\<lparr>ufd_id = i, group_config = Some \<lparr>uplink = Some [a, b], downlink = Some [d]\<rparr>\<rparr>] d
          = map_option upper (raw d))"
proof (intro conjI impI)
  assume a: "(\<forall>h \<in> set skipped. \<not> lists_downlink ifname h) \<and> group_config g = Some c
      \<and> downlink c = Some dl \<and> ifname \<in> set dl \<and> uplink c = Some ups"
  then have "is_downlink_port ifname (skipped @ g # rest) = (True, Some ups)"
    using is_downlink_port_skip [of skipped ifname "g # rest"] is_downlink_port_hit [of g c dl ifname ups rest]
    by simp
  then show "get_oper_status raw (skipped @ g # rest) ifname =
          (if ups \<noteq> [] \<and> raw (hd ups) = Some ''down'' then Some ''DORMANT''
           else map_option upper (raw ifname))"
    by (cases ups) (simp_all add: get_oper_status_def)
next
  assume "\<forall>h \<in> set ufd_list. \<not> lists_downlink ifname h"
  then show "get_oper_status raw ufd_list ifname = map_option upper (raw ifname)"
    by (simp add: get_oper_status_def is_downlink_port_none)
next
  assume "raw a = Some ''down'' \<and> raw b = Some ''down''"
  then show "get_oper_status raw [\<lparr>ufd_id = i, group_config = Some \<lparr>uplink = Some [a, b], downlink = Some [d]\<rparr>\<rparr>] d
          = Some ''DORMANT''"
    by (simp add: get_oper_status_def)
next
  assume "raw a = Some ''up''"
  then show "get_oper_status raw [\<lparr>ufd_id = i, group_config = Some \<lparr>uplink = Some [a, b], downlink = Some [d]\<rparr>\<rparr>] d
          = map_option upper (raw d)"
    by (simp add: get_oper_status_def)
qed

theorem get_oper_status_first_uplink_witness:
  "get_oper_status raw_all_down ufd_ex ''Ethernet3_1'' = Some ''DORMANT''
   \<and> get_oper_status raw_first_up ufd_ex ''Ethernet3_1'' = Some ''DOWN''
   \<and> get_oper_status raw_first_up [] ''Ethernet3_1'' = Some ''DOWN''"
proof -
  note t = get_oper_status_first_uplink
  have u: "map_option upper (raw_first_up ''Ethernet3_1'') = Some ''DOWN''"
    by (simp add: raw_first_up_def upper_def upper_char_def)
  have 1: "get_oper_status raw_all_down ufd_ex ''Ethernet3_1'' = Some ''DORMANT''"
    using t [of "[]" "''Ethernet3_1''" "hd ufd_ex" "\<lparr>uplink = Some [''Ethernet1_1'', ''Ethernet2_1''],
                 downlink = Some [''Ethernet3_1'']\<rparr>" "[''Ethernet3_1'']" "[''Ethernet1_1'', ''Ethernet2_1'']"
                 raw_all_down "[]"]
    by (simp add: ufd_ex_def raw_all_down_def)
  have 2: "get_oper_status raw_first_up ufd_ex ''Ethernet3_1'' = Some ''DOWN''"
    using t [of "[]" "''Ethernet3_1''" "hd ufd_ex" "\<lparr>uplink = Some [''Ethernet1_1'', ''Ethernet2_1''],
                 downlink = Some [''Ethernet3_1'']\<rparr>" "[''Ethernet3_1'']" "[''Ethernet1_1'', ''Ethernet2_1'']"
                 raw_first_up "[]"] u
    by (simp add: ufd_ex_def raw_first_up_def)
  have 3: "get_oper_status raw_first_up [] ''Ethernet3_1'' = Some ''DOWN''"
    using t [of "[]" "''Ethernet3_1''" _ _ _ _ raw_first_up _ "[]"] u by simp
  from 1 2 3 show ?thesis by blast
qed

section \<open>De-duplication in the notification bridge\<close>

lemma last_field_example: "last_field ''__keyspace@0__:PORT_TABLE:Ethernet3_1'' = ''Ethernet3_1''"
  by (simp add: last_field_def)

text \<open>
  Claim C6 as stated fails.  Two consecutive signals for \<open>Ethernet3_1\<close>, raw up
  then raw down, both resolve to DORMANT (its uplink is down), and the bridge
  emits two notifications, both DORMANT.
\<close>

theorem event_handler_counterexample:
  "get_oper_status (sig_raw signal_up) (sig_ufd signal_up) ''Ethernet3_1''
     = get_oper_status (sig_raw signal_down) (sig_ufd signal_down) ''Ethernet3_1''
   \<and> sent (event_handler [signal_up, signal_down] bridge_init)
     = [(''Ethernet3_1'', Some ''DORMANT''), (''Ethernet3_1'', Some ''DORMANT'')]"
  by (simp add: last_field_example handle_msg_def signal_up_def signal_down_def bridge_init_def
      get_oper_status_def ufd_ex_def raw_all_down_def raw_everything_down_def Let_def)

text \<open>
  Claim C6, as the code has it.  The bridge compares the raw status with the raw
  status cached at the last notification.  Two consecutive signals for one
  interface that read the same raw status emit at most one notification: the
  second is always dropped; none is emitted when the raw status is absent or
  equals the cached one (\<open>unknown\<close> when nothing is cached), and exactly one,
  carrying the resolved status, otherwise.
\<close>

theorem event_handler_same_raw_once:
  assumes "msg_pattern m1 \<noteq> None" and "msg_pattern m2 \<noteq> None"
    and "last_field (msg_channel m1) = ifname" and "last_field (msg_channel m2) = ifname"
    and "sig_raw m1 ifname = sig_raw m2 ifname"
  shows "sent (event_handler [m1, m2] b) = sent (handle_msg m1 b)
       \<and> (sig_raw m1 ifname = None \<or> sig_raw m1 ifname = Some (case notif_if b ifname of None \<Rightarrow> ''unknown'' | Some v \<Rightarrow> v)
            \<longrightarrow> sent (event_handler [m1, m2] b) = sent b)
       \<and> (\<forall>st. sig_raw m1 ifname = Some st \<and> st \<noteq> (case notif_if b ifname of None \<Rightarrow> ''unknown'' | Some v \<Rightarrow> v)
            \<longrightarrow> sent (event_handler [m1, m2] b)
                  = sent b @ [(ifname, get_oper_status (sig_raw m1) (sig_ufd m1) ifname)])"
  using assms
  by (auto simp: handle_msg_def Let_def split: option.splits)

theorem event_handler_same_raw_once_witness:
  "sent (event_handler [signal_up, signal_up] bridge_init) = [(''Ethernet3_1'', Some ''DORMANT'')]"
proof -
  have p: "msg_pattern signal_up \<noteq> None" by (simp add: signal_up_def)
  have c: "last_field (msg_channel signal_up) = ''Ethernet3_1''"
    by (simp add: signal_up_def last_field_example)
  have r: "sig_raw signal_up ''Ethernet3_1'' = Some ''up''"
    by (simp add: signal_up_def raw_all_down_def)
  have g: "get_oper_status (sig_raw signal_up) (sig_ufd signal_up) ''Ethernet3_1'' = Some ''DORMANT''"
    by (simp add: signal_up_def get_oper_status_def ufd_ex_def raw_all_down_def)
  have n: "notif_if bridge_init ''Ethernet3_1'' = None" and e: "sent bridge_init = []"
    by (simp_all add: bridge_init_def)
  from event_handler_same_raw_once [OF p p c c refl, of bridge_init]
  have "\<forall>st. sig_raw signal_up ''Ethernet3_1'' = Some st
            \<and> st \<noteq> (case notif_if bridge_init ''Ethernet3_1'' of None \<Rightarrow> ''unknown'' | Some v \<Rightarrow> v)
          \<longrightarrow> sent (event_handler [signal_up, signal_up] bridge_init)
                = sent bridge_init
                  @ [(''Ethernet3_1'', get_oper_status (sig_raw signal_up) (sig_ufd signal_up) ''Ethernet3_1'')]"
    by blast
  then have "sent (event_handler [signal_up, signal_up] bridge_init)
                = sent bridge_init
                  @ [(''Ethernet3_1'', get_oper_status (sig_raw signal_up) (sig_ufd signal_up) ''Ethernet3_1'')]"
    using r n by simp
  then show ?thesis by (simp only: g e append_Nil)
qed

section \<open>Reconciliation runs\<close>

lemma uniform_ret: "uniform (ret x)"
  unfolding uniform_def
  by (rule exI [of _ "Inr x"], rule exI [of _ Map.empty], rule exI [of _ "[]"]) (simp add: ret_def)

lemma uniform_lift: "uniform (lift r)"
  unfolding uniform_def
  by (rule exI [of _ r], rule exI [of _ Map.empty], rule exI [of _ "[]"]) (simp add: lift_def)

lemma uniform_logger_warn: "uniform (logger_warn k v)"
  unfolding uniform_def
  by (rule exI [of _ "Inr ()"], rule exI [of _ Map.empty], rule exI [of _ "[LogWarn k v]"])
     (simp add: logger_warn_def)

lemma uniform_invoke:
  assumes "c \<noteq> Restart"
  shows "uniform (invoke env c)"
proof (cases "raises env c")
  case (Some e)
  show ?thesis
    unfolding uniform_def
    by (rule exI [of _ "Inl e"], rule exI [of _ Map.empty], rule exI [of _ "[c]"])
       (use assms Some in \<open>simp add: invoke_def\<close>)
next
  case None
  show ?thesis
  proof (cases "\<exists>i k v. c = SetConfigDb i k v")
    case True
    then obtain i k v where c: "c = SetConfigDb i k v" by blast
    show ?thesis
      unfolding uniform_def
      by (rule exI [of _ "Inr ()"], rule exI [of _ "[(i, k) \<mapsto> v]"], rule exI [of _ "[c]"])
         (use None c in \<open>simp add: invoke_def\<close>)
  next
    case False
    then have e: "effect c s = s" for s by (cases c) simp_all
    show ?thesis
      unfolding uniform_def
      by (rule exI [of _ "Inr ()"], rule exI [of _ Map.empty], rule exI [of _ "[c]"])
         (use None assms e in \<open>simp add: invoke_def\<close>)
  qed
qed

lemma uniform_bnd:
  assumes "uniform m" and "\<And>x. uniform (f x)"
  shows "uniform (bnd m f)"
proof -
  from assms(1) obtain r W cs where m: "Restart \<notin> set cs"
      "\<And>s. m s = (r, s\<lparr>config_db := config_db s ++ W, calls := calls s @ cs\<rparr>)"
    unfolding uniform_def by blast
  show ?thesis
  proof (cases r)
    case (Inl e)
    show ?thesis
      unfolding uniform_def
      by (rule exI [of _ "Inl e"], rule exI [of _ W], rule exI [of _ cs])
         (use m Inl in \<open>simp add: bnd_def\<close>)
  next
    case (Inr x)
    from assms(2) [of x] obtain r' W' cs' where f: "Restart \<notin> set cs'"
      "\<And>s. f x s = (r', s\<lparr>config_db := config_db s ++ W', calls := calls s @ cs'\<rparr>)"
      unfolding uniform_def by blast
    show ?thesis
      unfolding uniform_def
      by (rule exI [of _ r'], rule exI [of _ "W ++ W'"], rule exI [of _ "cs @ cs'"])
         (use m f Inr in \<open>simp add: bnd_def\<close>)
  qed
qed

lemma uniform_replay_autoneg: "uniform (replay_autoneg env ifname d)"
  by (induction d) (auto intro!: uniform_bnd uniform_ret uniform_invoke uniform_lift)

lemma uniform_replay_ethernet: "uniform (replay_ethernet env ifname config d)"
  by (induction d)
     (auto intro!: uniform_bnd uniform_ret uniform_invoke uniform_lift uniform_logger_warn
           split: yval.splits)

lemma uniform_replay_config: "uniform (replay_config env ifname d)"
  by (induction d) (auto intro!: uniform_bnd uniform_ret uniform_invoke uniform_logger_warn)

lemma uniform_replay_interface: "uniform (replay_interface env ifname config)"
  unfolding replay_interface_def Let_def
  by (intro uniform_bnd uniform_lift uniform_ret uniform_replay_autoneg
        uniform_replay_ethernet uniform_replay_config)

lemma uniform_replay_interfaces: "uniform (replay_interfaces env ns config)"
  by (induction ns arbitrary: config) (auto intro!: uniform_bnd uniform_ret uniform_replay_interface)

lemma uniform_reconcile_servers: "uniform (reconcile_servers env is)"
  by (induction "is") (auto intro!: uniform_bnd uniform_ret uniform_invoke)

lemma bnd_assoc: "bnd (bnd m f) g = bnd m (\<lambda>x. bnd (f x) g)"
  by (rule ext) (simp add: bnd_def split: prod.splits sum.splits)

lemma map_add_twice: "m ++ W ++ W = m ++ W"
  by (rule ext) (simp add: map_add_def split: option.splits)

lemma uniform_replay_tail:
  "uniform (bnd (replay_interfaces env (get_ifnames env) (top_config env))
              (\<lambda>_. reconcile_servers env [0 ..< servers env]))"
  by (intro uniform_bnd uniform_replay_interfaces uniform_reconcile_servers)

lemma reconcile_alt:
  "reconcile env =
     bnd (set_rebooting True) (\<lambda>_.
     bnd (breakout_update_usonic env (top_config env)) (\<lambda>is_updated.
     bnd (if is_updated then invoke env Wait else invoke env CacheCounters) (\<lambda>_.
     bnd (bnd (replay_interfaces env (get_ifnames env) (top_config env))
              (\<lambda>_. reconcile_servers env [0 ..< servers env]))
         (\<lambda>_. set_rebooting False))))"
  by (simp add: reconcile_def bnd_assoc)

text \<open>The run, with the replay and the peers' hooks taken as one step \<open>T\<close>.\<close>

lemma run_success:
  fixes T :: "unit act" and s :: sonic
  defines "R \<equiv> \<lambda>env config. bnd (set_rebooting True) (\<lambda>_.
               bnd (breakout_update_usonic env config) (\<lambda>is_updated.
               bnd (if is_updated then invoke env Wait else invoke env CacheCounters) (\<lambda>_.
               bnd T (\<lambda>_. set_rebooting False))))"
  assumes T: "\<And>s. T s = (rP, s\<lparr>config_db := config_db s ++ W, calls := calls s @ cs\<rparr>)"
    and ok: "fst (R env config s) = Inr ()"
  shows "\<exists>pm. port_map (helpers env) config = Inr pm
           \<and> raises env (UpdateUsonicConfig pm) = None
           \<and> rP = Inr ()
           \<and> usonic_config (snd (R env config s)) = pm
           \<and> config_db (snd (R env config s)) = config_db s ++ W
           \<and> \<not> is_rebooting (snd (R env config s))"
proof (cases "port_map (helpers env) config")
  case (Inl e)
  with ok show ?thesis
    by (simp add: R_def bnd_def set_rebooting_def breakout_update_usonic_def lift_def)
next
  case (Inr pm)
  show ?thesis
  proof (cases "raises env (UpdateUsonicConfig pm)")
    case (Some e)
    with ok Inr show ?thesis
      by (simp add: R_def bnd_def set_rebooting_def breakout_update_usonic_def lift_def
          update_usonic_config_def Let_def)
  next
    case None
    show ?thesis
    proof (cases rP)
      case (Inl e)
      with ok Inr None T show ?thesis
        by (auto simp: R_def bnd_def set_rebooting_def breakout_update_usonic_def lift_def ret_def
            update_usonic_config_def invoke_def Let_def split: option.splits if_splits)
    next
      case r: (Inr u)
      with ok Inr None T show ?thesis
        by (auto simp: R_def bnd_def set_rebooting_def breakout_update_usonic_def lift_def ret_def
            update_usonic_config_def invoke_def Let_def split: option.splits if_splits)
    qed
  qed
qed

lemma run_unchanged:
  fixes T :: "unit act" and s :: sonic
  assumes T: "\<And>s. T s = (rP, s\<lparr>config_db := config_db s ++ W, calls := calls s @ cs\<rparr>)"
    and pm: "port_map (helpers env) config = Inr pm"
    and same: "usonic_config s = pm"
  shows "\<exists>cs'. calls (snd (bnd (set_rebooting True) (\<lambda>_.
               bnd (breakout_update_usonic env config) (\<lambda>is_updated.
               bnd (if is_updated then invoke env Wait else invoke env CacheCounters) (\<lambda>_.
               bnd T (\<lambda>_. set_rebooting False)))) s))
           = calls s @ UpdateUsonicConfig pm # cs'
          \<and> (raises env (UpdateUsonicConfig pm) = None \<longrightarrow> cs' = CacheCounters # tl cs')
          \<and> set cs' \<subseteq> insert CacheCounters (set cs)"
  using assms
  by (auto simp: bnd_def set_rebooting_def breakout_update_usonic_def lift_def ret_def
      update_usonic_config_def invoke_def Let_def split: option.splits sum.splits)

lemma run_again:
  fixes T :: "unit act" and s :: sonic
  assumes T: "\<And>s. T s = (Inr u, s\<lparr>config_db := config_db s ++ W, calls := calls s @ cs\<rparr>)"
    and pm: "port_map (helpers env) config = Inr pm"
    and up: "raises env (UpdateUsonicConfig pm) = None"
    and cc: "raises env CacheCounters = None"
    and same: "usonic_config s = pm"
  shows "bnd (set_rebooting True) (\<lambda>_.
               bnd (breakout_update_usonic env config) (\<lambda>is_updated.
               bnd (if is_updated then invoke env Wait else invoke env CacheCounters) (\<lambda>_.
               bnd T (\<lambda>_. set_rebooting False)))) s
         = (Inr (), s\<lparr>is_rebooting := False, usonic_config := pm,
                       config_db := config_db s ++ W,
                       calls := calls s @ [UpdateUsonicConfig pm, CacheCounters] @ cs\<rparr>)"
  using assms
  by (simp add: bnd_def set_rebooting_def breakout_update_usonic_def lift_def ret_def
      update_usonic_config_def invoke_def Let_def)

lemma run_flag:
  fixes T :: "unit act" and s :: sonic
  defines "R \<equiv> \<lambda>env config. bnd (set_rebooting True) (\<lambda>_.
               bnd (breakout_update_usonic env config) (\<lambda>is_updated.
               bnd (if is_updated then invoke env Wait else invoke env CacheCounters) (\<lambda>_.
               bnd T (\<lambda>_. set_rebooting False))))"
  assumes T: "\<And>s. T s = (rP, s\<lparr>config_db := config_db s ++ W, calls := calls s @ cs\<rparr>)"
  shows "is_rebooting (snd (R env config s)) = (fst (R env config s) \<noteq> Inr ())"
proof (cases "port_map (helpers env) config")
  case (Inl e)
  then show ?thesis
    by (simp add: R_def bnd_def set_rebooting_def breakout_update_usonic_def lift_def)
next
  case (Inr pm)
  show ?thesis
  proof (cases rP)
    case (Inl e)
    with Inr T show ?thesis
      by (auto simp: R_def bnd_def set_rebooting_def breakout_update_usonic_def lift_def ret_def
          update_usonic_config_def invoke_def Let_def split: option.splits if_splits)
  next
    case r: (Inr u)
    with Inr T show ?thesis
      by (auto simp: R_def bnd_def set_rebooting_def breakout_update_usonic_def lift_def ret_def
          update_usonic_config_def invoke_def Let_def split: option.splits if_splits)
  qed
qed

lemma reconcile_flag:
  "is_rebooting (snd (reconcile env s)) = (fst (reconcile env s) \<noteq> Inr ())"
proof -
  from uniform_replay_tail [of env] obtain rP W cs where
    T: "\<And>s. bnd (replay_interfaces env (get_ifnames env) (top_config env))
              (\<lambda>_. reconcile_servers env [0 ..< servers env]) s
            = (rP, s\<lparr>config_db := config_db s ++ W, calls := calls s @ cs\<rparr>)"
    unfolding uniform_def by blast
  show ?thesis unfolding reconcile_alt by (rule run_flag [OF T])
qed

lemmas run_defs = reconcile_def bnd_def set_rebooting_def breakout_update_usonic_def lift_def
  ret_def update_usonic_config_def invoke_def Let_def port_map_def bind_err_def dict_get_def
  dict_item_def replay_interface_def autoneg_of_def ethernet_of_def config_of_def
  fill_enabled_def fill_default_def fill_iftype_def get_default_def xpath_of_def
  logger_warn_def

lemma reconcile_env_ex_ok: "fst (reconcile env_ex sonic_init) = Inr ()"
  by (simp add: run_defs env_ex_def sonic_init_def schema_ex_def helpers_ex_def)

lemma reconcile_env_timeout_fails:
  "fst (reconcile env_timeout sonic_init) = Inl (ExternalFailure ''timeout'')
   \<and> is_rebooting (snd (reconcile env_timeout sonic_init))
   \<and> pre (snd (reconcile env_timeout sonic_init)) = Inl (LockedError ''uSONiC is rebooting'')"
  by (simp add: run_defs env_timeout_def env_ex_def sonic_init_def schema_ex_def
      helpers_ex_def pre_def)

text \<open>
  Claim C3 as stated fails.  When the wait for the forwarding plane raises (a
  timeout), the run ends with that exception and the busy flag still set: the
  next commit is rejected by \<open>pre\<close>, and the task loop, which catches
  \<open>queue.Empty\<close> only, ends with the same exception.
\<close>

theorem reconcile_busy_flag_counterexample:
  "fst (reconcile env_timeout sonic_init) = Inl (ExternalFailure ''timeout'')
   \<and> is_rebooting (snd (reconcile env_timeout sonic_init))
   \<and> pre (snd (reconcile env_timeout sonic_init)) = Inl (LockedError ''uSONiC is rebooting'')
   \<and> fst (handle_tasks env_timeout 1 (1, sonic_init)) = Inl (ExternalFailure ''timeout'')"
proof -
  have a: "fst (reconcile env_timeout sonic_init) = Inl (ExternalFailure ''timeout'')
   \<and> is_rebooting (snd (reconcile env_timeout sonic_init))
   \<and> pre (snd (reconcile env_timeout sonic_init)) = Inl (LockedError ''uSONiC is rebooting'')"
    by (rule reconcile_env_timeout_fails)
  then have "fst (handle_tasks env_timeout (Suc 0) (1, sonic_init)) = Inl (ExternalFailure ''timeout'')"
    by (cases "reconcile env_timeout sonic_init") auto
  with a show ?thesis by simp
qed

text \<open>
  Claim C3, as the code has it.  \<open>reconcile\<close> clears \<open>is_rebooting\<close> only as
  the last step of a run that completes: after a completed run the flag is
  clear and \<open>pre\<close> accepts commits.  After a run that fails with an exception
  \<open>e\<close> the flag is still set, \<open>pre\<close> rejects every commit with
  \<open>LockedError\<close>, and \<open>handle_tasks\<close>, having taken the run from its queue,
  ends with \<open>e\<close>.
\<close>

theorem reconcile_busy_flag:
  "(fst (reconcile env s) = Inr () \<longrightarrow>
      \<not> is_rebooting (snd (reconcile env s)) \<and> pre (snd (reconcile env s)) = Inr ())
   \<and> (fst (reconcile env s) = Inl e \<longrightarrow>
        is_rebooting (snd (reconcile env s))
        \<and> pre (snd (reconcile env s)) = Inl (LockedError ''uSONiC is rebooting'')
        \<and> (0 < queue \<longrightarrow>
             handle_tasks env (Suc n) (queue, s) = (Inl e, (queue - 1, snd (reconcile env s)))))"
  using reconcile_flag [of env s]
  by (cases "reconcile env s") (auto simp: pre_def)

theorem reconcile_busy_flag_witness:
  "fst (reconcile env_ex sonic_init) = Inr ()
   \<and> \<not> is_rebooting (snd (reconcile env_ex sonic_init))
   \<and> pre (snd (reconcile env_ex sonic_init)) = Inr ()
   \<and> fst (reconcile env_timeout sonic_init) = Inl (ExternalFailure ''timeout'')
   \<and> is_rebooting (snd (reconcile env_timeout sonic_init))
   \<and> handle_tasks env_timeout (Suc 0) (1, sonic_init)
       = (Inl (ExternalFailure ''timeout''), (0, snd (reconcile env_timeout sonic_init)))"
proof -
  have a: "fst (reconcile env_ex sonic_init) = Inr ()"
    by (rule reconcile_env_ex_ok)
  have b: "fst (reconcile env_timeout sonic_init) = Inl (ExternalFailure ''timeout'')"
    using reconcile_env_timeout_fails by blast
  show ?thesis
    using a b reconcile_busy_flag [of env_ex sonic_init]
      reconcile_busy_flag [of env_timeout sonic_init "ExternalFailure ''timeout''" 1 0]
    by simp
qed

text \<open>
  Claim C5.  When a reconcile run has completed, a second run with the same
  configuration and the same answers of the collaborators completes too (given
  that \<open>cache_counters\<close> does not raise), leaves the local state table, the
  active port map and the busy flag as the first run left them, and makes no
  restart: it calls \<open>cache_counters\<close> instead.  In general, whenever the
  computed port map equals the active one, the run makes no restart, and
  snapshots the counters as soon as the port-map update returns.
\<close>

theorem reconcile_twice:
  assumes ok: "fst (reconcile env s) = Inr ()" and cc: "raises env CacheCounters = None"
  shows "(let s1 = snd (reconcile env s); s2 = snd (reconcile env s1);
              new = drop (length (calls s1)) (calls s2)
          in fst (reconcile env s1) = Inr ()
             \<and> config_db s2 = config_db s1 \<and> usonic_config s2 = usonic_config s1
             \<and> is_rebooting s2 = is_rebooting s1
             \<and> Restart \<notin> set new \<and> CacheCounters \<in> set new)
       \<and> (\<forall>t pm. port_map (helpers env) (top_config env) = Inr pm \<and> usonic_config t = pm \<longrightarrow>
             Restart \<notin> set (drop (length (calls t)) (calls (snd (reconcile env t))))
             \<and> (raises env (UpdateUsonicConfig pm) = None \<longrightarrow>
                  CacheCounters \<in> set (drop (length (calls t)) (calls (snd (reconcile env t))))))"
proof -
  from uniform_replay_tail [of env] obtain rP W cs where nr: "Restart \<notin> set cs"
    and T: "\<And>s. bnd (replay_interfaces env (get_ifnames env) (top_config env))
              (\<lambda>_. reconcile_servers env [0 ..< servers env]) s
            = (rP, s\<lparr>config_db := config_db s ++ W, calls := calls s @ cs\<rparr>)"
    unfolding uniform_def by blast
  define s1 where "s1 = snd (reconcile env s)"
  have "\<exists>pm. port_map (helpers env) (top_config env) = Inr pm
           \<and> raises env (UpdateUsonicConfig pm) = None
           \<and> rP = Inr ()
           \<and> usonic_config (snd (reconcile env s)) = pm
           \<and> config_db (snd (reconcile env s)) = config_db s ++ W
           \<and> \<not> is_rebooting (snd (reconcile env s))"
    using ok unfolding reconcile_alt by (rule run_success [OF T])
  then obtain pm where pm: "port_map (helpers env) (top_config env) = Inr pm"
    and up: "raises env (UpdateUsonicConfig pm) = None"
    and rP: "rP = Inr ()"
    and u1: "usonic_config s1 = pm"
    and c1: "config_db s1 = config_db s ++ W"
    and f1: "\<not> is_rebooting s1"
    unfolding s1_def by blast
  from T rP have T': "\<And>s. bnd (replay_interfaces env (get_ifnames env) (top_config env))
              (\<lambda>_. reconcile_servers env [0 ..< servers env]) s
            = (Inr (), s\<lparr>config_db := config_db s ++ W, calls := calls s @ cs\<rparr>)"
    by simp
  have r2: "reconcile env s1 =
          (Inr (), s1\<lparr>is_rebooting := False, usonic_config := pm,
                       config_db := config_db s1 ++ W,
                       calls := calls s1 @ [UpdateUsonicConfig pm, CacheCounters] @ cs\<rparr>)"
    unfolding reconcile_alt by (rule run_again [OF T' pm up cc u1])
  have first: "let s1 = snd (reconcile env s); s2 = snd (reconcile env s1);
              new = drop (length (calls s1)) (calls s2)
          in fst (reconcile env s1) = Inr ()
             \<and> config_db s2 = config_db s1 \<and> usonic_config s2 = usonic_config s1
             \<and> is_rebooting s2 = is_rebooting s1
             \<and> Restart \<notin> set new \<and> CacheCounters \<in> set new"
    using r2 nr u1 c1 f1 unfolding s1_def [symmetric] Let_def by (simp add: map_add_twice)
  have second: "Restart \<notin> set (drop (length (calls t)) (calls (snd (reconcile env t))))
             \<and> (raises env (UpdateUsonicConfig pm') = None \<longrightarrow>
                  CacheCounters \<in> set (drop (length (calls t)) (calls (snd (reconcile env t)))))"
    if h: "port_map (helpers env) (top_config env) = Inr pm'" "usonic_config t = pm'" for t pm'
  proof -
    have "\<exists>cs'. calls (snd (reconcile env t)) = calls t @ UpdateUsonicConfig pm' # cs'
          \<and> (raises env (UpdateUsonicConfig pm') = None \<longrightarrow> cs' = CacheCounters # tl cs')
          \<and> set cs' \<subseteq> insert CacheCounters (set cs)"
      unfolding reconcile_alt by (rule run_unchanged [OF T h])
    then obtain cs' where
      c: "calls (snd (reconcile env t)) = calls t @ UpdateUsonicConfig pm' # cs'"
      and d: "raises env (UpdateUsonicConfig pm') = None \<longrightarrow> cs' = CacheCounters # tl cs'"
      and e: "set cs' \<subseteq> insert CacheCounters (set cs)"
      by (elim exE conjE)
    from e nr have "Restart \<notin> set cs'" by auto
    moreover from d have "raises env (UpdateUsonicConfig pm') = None \<longrightarrow> CacheCounters \<in> set cs'"
      by (metis list.set_intros(1))
    ultimately show ?thesis using c by simp
  qed
  from first second show ?thesis by blast
qed

theorem reconcile_twice_witness:
  "fst (reconcile env_ex sonic_init) = Inr ()
   \<and> raises env_ex CacheCounters = None
   \<and> fst (reconcile env_ex (snd (reconcile env_ex sonic_init))) = Inr ()
   \<and> config_db (snd (reconcile env_ex (snd (reconcile env_ex sonic_init))))
       = config_db (snd (reconcile env_ex sonic_init))
   \<and> Restart \<notin> set (drop (length (calls (snd (reconcile env_ex sonic_init))))
                   (calls (snd (reconcile env_ex (snd (reconcile env_ex sonic_init))))))"
proof -
  have a: "fst (reconcile env_ex sonic_init) = Inr ()"
    by (rule reconcile_env_ex_ok)
  have b: "raises env_ex CacheCounters = None"
    by (simp add: env_ex_def)
  from reconcile_twice [OF a b] a b show ?thesis
    unfolding Let_def by blast
qed

text \<open>
  Claim C4 fails on the code for the \<open>ethernet\<close> container.  With one
  interface whose \<open>ethernet/config\<close> holds the unrecognised attribute
  \<open>pin-mode\<close>, the warning's \<open>config[key]\<close> looks the key up in the whole
  running configuration and the run ends with \<open>KeyError\<close>, the busy flag set.
\<close>

theorem reconcile_unhandled_ethernet_KeyError:
  "fst (reconcile env_unhandled sonic_init) = Inl (KeyError ''pin-mode'')
   \<and> is_rebooting (snd (reconcile env_unhandled sonic_init))"
  by (simp add: run_defs env_unhandled_def data_unhandled_def env_ex_def sonic_init_def
      schema_ex_def helpers_ex_def)

text \<open>
  The loop over the \<open>config\<close> container logs \<open>config[key]\<close> of the dict it
  iterates: there an unrecognised attribute is logged and skipped, and the loop
  raises only if a collaborator does.
\<close>

lemma replay_config_never_raises:
  assumes "\<And>c. raises env c = None"
  shows "fst (replay_config env ifname d s) = Inr ()"
  using assms
  by (induction d arbitrary: s)
     (auto simp: ret_def bnd_def invoke_def logger_warn_def Let_def split: prod.splits sum.splits)

end
